theory Spec2Isabelle
  imports Main
begin

section \<open>Python text\<close>

text \<open>
  A Python \<open>str\<close> is a sequence of Unicode code points, so the model takes a string to be
  a list of code points (integers). ASCII text is written with \<open>u ''...''\<close>; the two
  non-ASCII characters of the source are named.
\<close>

type_synonym ustr = "int list"

abbreviation u :: "string \<Rightarrow> ustr" where
  "u s \<equiv> map of_char s"

definition endash :: int where
  "endash = 8211"

definition nbsp :: int where
  "nbsp = 160"

text \<open>
  \<open>str.isspace\<close>, which is also what \<open>\s\<close>, \<open>str.strip()\<close> and \<open>str.split()\<close> use:
  the 29 white-space code points of Unicode.
\<close>

definition is_space :: "int \<Rightarrow> bool" where
  "is_space c = ((9 \<le> c \<and> c \<le> 13) \<or> (28 \<le> c \<and> c \<le> 32) \<or> c = 133 \<or> c = 160
     \<or> c = 5760 \<or> (8192 \<le> c \<and> c \<le> 8202) \<or> c = 8232 \<or> c = 8233 \<or> c = 8239
     \<or> c = 8287 \<or> c = 12288)"

text \<open>
  The decimal digits (\<open>\d\<close>, and the digits \<open>int()\<close> accepts): every run of ten starts at
  one of these code points (Unicode 14); the run at 120782 holds five sets of ten.
\<close>

definition digit_starts :: "int list" where
  "digit_starts = [48, 1632, 1776, 1984, 2406, 2534, 2662, 2790, 2918, 3046, 3174, 3302,
     3430, 3558, 3664, 3792, 3872, 4160, 4240, 6112, 6160, 6470, 6608, 6784, 6800, 6992,
     7088, 7232, 7248, 42528, 43216, 43264, 43472, 43504, 43600, 44016, 65296, 66720,
     68912, 69734, 69872, 69942, 70096, 70384, 70736, 70864, 71248, 71360, 71472, 71904,
     72016, 72784, 73040, 73120, 92768, 92864, 93008, 120782, 120792, 120802, 120812,
     120822, 123200, 123632, 125264, 130032]"

fun digit_in :: "int list \<Rightarrow> int \<Rightarrow> int option" where
  "digit_in [] c = None"
| "digit_in (z # zs) c = (if z \<le> c \<and> c < z + 10 then Some (c - z) else digit_in zs c)"

definition digit_value :: "int \<Rightarrow> int option" where
  "digit_value c = (if c < 128 then (if 48 \<le> c \<and> c \<le> 57 then Some (c - 48) else None)
     else digit_in digit_starts c)"

definition is_digit :: "int \<Rightarrow> bool" where
  "is_digit c = (digit_value c \<noteq> None)"

text \<open>\<open>str.strip()\<close>, \<open>str.split()\<close> with no argument, \<open>str.split(sep)\<close> for a one-character
  separator, \<open>sep.join\<close>.\<close>

definition strip :: "ustr \<Rightarrow> ustr" where
  "strip s = rev (dropWhile is_space (rev (dropWhile is_space s)))"

fun split_ws_acc :: "ustr \<Rightarrow> ustr \<Rightarrow> ustr list" where
  "split_ws_acc cur [] = (if cur = [] then [] else [rev cur])"
| "split_ws_acc cur (c # cs) =
     (if is_space c then (if cur = [] then split_ws_acc [] cs else rev cur # split_ws_acc [] cs)
      else split_ws_acc (c # cur) cs)"

definition split_ws :: "ustr \<Rightarrow> ustr list" where
  "split_ws s = split_ws_acc [] s"

fun split_on :: "int \<Rightarrow> ustr \<Rightarrow> ustr list" where
  "split_on d [] = [[]]"
| "split_on d (c # cs) =
     (if c = d then [] # split_on d cs
      else (case split_on d cs of p # ps \<Rightarrow> (c # p) # ps | [] \<Rightarrow> [[c]]))"

fun join :: "ustr \<Rightarrow> ustr list \<Rightarrow> ustr" where
  "join sep [] = []"
| "join sep [x] = x"
| "join sep (x # y # ys) = x @ sep @ join sep (y # ys)"

text \<open>
  \<open>str.title()\<close>: a cased character is upper-cased after an uncased one and lower-cased
  after a cased one. The case tables are those of ASCII: a code point above 127 is taken
  as uncased and left as it is.
\<close>

definition is_upper :: "int \<Rightarrow> bool" where
  "is_upper c = (65 \<le> c \<and> c \<le> 90)"

definition is_lower :: "int \<Rightarrow> bool" where
  "is_lower c = (97 \<le> c \<and> c \<le> 122)"

definition to_lower :: "int \<Rightarrow> int" where
  "to_lower c = (if is_upper c then c + 32 else c)"

definition to_upper :: "int \<Rightarrow> int" where
  "to_upper c = (if is_lower c then c - 32 else c)"

fun title_from :: "bool \<Rightarrow> ustr \<Rightarrow> ustr" where
  "title_from prev_cased [] = []"
| "title_from prev_cased (c # cs) =
     (if prev_cased then to_lower c else to_upper c)
       # title_from (is_upper c \<or> is_lower c) cs"

definition title :: "ustr \<Rightarrow> ustr" where
  "title s = title_from False s"

section \<open>Regular expressions\<close>

text \<open>
  The patterns of the source are values of \<open>regex\<close>, matched by backtracking as Python's
  \<open>re\<close> does: \<open>ms r (s, g)\<close> lists, in the order the backtracking search tries them, every
  way \<open>r\<close> can match a prefix of \<open>s\<close>, each as the text left over and the groups
  captured so far. The match Python reports is the first of the list.
\<close>

datatype atom = Lit int | LitI int | Dot | Space | Digit

datatype regex =
    Eps
  | Atom atom
  | Seq regex regex
  | Alt regex regex
  | Star regex
  | Lazy regex
  | Group nat regex

type_synonym caps = "(nat \<times> ustr) list"

text \<open>
  \<open>LitI p\<close> is the literal \<open>p\<close> (a lower-case ASCII letter, or an uncased character)
  under \<open>re.IGNORECASE\<close>: besides both ASCII cases, \<open>i\<close> matches U+0130 and U+0131,
  \<open>s\<close> matches U+017F and \<open>k\<close> matches U+212A. \<open>Dot\<close> is \<open>.\<close> without \<open>re.DOTALL\<close>.
\<close>

fun atom_match :: "atom \<Rightarrow> int \<Rightarrow> bool" where
  "atom_match (Lit p) c = (c = p)"
| "atom_match (LitI p) c = (to_lower c = p \<or> (p = 105 \<and> (c = 304 \<or> c = 305))
     \<or> (p = 115 \<and> c = 383) \<or> (p = 107 \<and> c = 8490))"
| "atom_match Dot c = (c \<noteq> 10)"
| "atom_match Space c = is_space c"
| "atom_match Digit c = is_digit c"

function ms :: "regex \<Rightarrow> ustr \<times> caps \<Rightarrow> (ustr \<times> caps) list" where
  "ms Eps st = [st]"
| "ms (Atom a) (s, g) =
     (case s of [] \<Rightarrow> [] | c # cs \<Rightarrow> if atom_match a c then [(cs, g)] else [])"
| "ms (Seq r1 r2) st = concat (map (ms r2) (ms r1 st))"
| "ms (Alt r1 r2) st = ms r1 st @ ms r2 st"
| "ms (Star r) (s, g) =
     concat (map (ms (Star r)) (filter (\<lambda>st'. length (fst st') < length s) (ms r (s, g))))
       @ [(s, g)]"
| "ms (Lazy r) (s, g) =
     (s, g) # concat (map (ms (Lazy r))
       (filter (\<lambda>st'. length (fst st') < length s) (ms r (s, g))))"
| "ms (Group n r) (s, g) =
     map (\<lambda>st'. (fst st', (n, take (length s - length (fst st')) s) # snd st')) (ms r (s, g))"
  by pat_completeness auto
termination
  by (relation "measures [\<lambda>(r, st). size r, \<lambda>(r, st). length (fst st)]") auto


text \<open>\<open>re.match\<close>: the first way to match at the start of the text, if any.\<close>

definition re_match :: "regex \<Rightarrow> ustr \<Rightarrow> (ustr \<times> caps) option" where
  "re_match r s = (case ms r (s, []) of [] \<Rightarrow> None | st # _ \<Rightarrow> Some st)"

text \<open>
  The leftmost match, as \<open>re.search\<close> finds it: the text before the match, the text
  after it and the groups.
\<close>

fun re_search :: "regex \<Rightarrow> ustr \<Rightarrow> (ustr \<times> ustr \<times> caps) option" where
  "re_search r [] = (case re_match r [] of None \<Rightarrow> None | Some (rest, g) \<Rightarrow> Some ([], rest, g))"
| "re_search r (c # cs) =
     (case re_match r (c # cs) of
        Some (rest, g) \<Rightarrow> Some ([], rest, g)
      | None \<Rightarrow> (case re_search r cs of
                   None \<Rightarrow> None
                 | Some (pre, rest, g) \<Rightarrow> Some (c # pre, rest, g)))"

text \<open>
  \<open>re.sub(r, repl, s)\<close> for a replacement without group references and \<open>re.split\<close>:
  the scan goes on after each match; after an empty match it steps over one character.
  \<open>re_pieces\<close> gives the text before each match with the groups of that match, and the
  text after the last match.
\<close>

function re_sub :: "regex \<Rightarrow> ustr \<Rightarrow> ustr \<Rightarrow> ustr" where
  "re_sub r repl s =
     (case re_search r s of
        None \<Rightarrow> s
      | Some (pre, rest, g) \<Rightarrow>
          if length rest < length s then pre @ repl @ re_sub r repl rest
          else (case s of [] \<Rightarrow> repl
                | c # cs \<Rightarrow> repl @ c # re_sub r repl cs))"
  by pat_completeness auto
termination
  by (relation "measure (\<lambda>(r, repl, s). length s)") auto

function re_pieces :: "regex \<Rightarrow> ustr \<Rightarrow> (ustr \<times> caps) list \<times> ustr" where
  "re_pieces r s =
     (case re_search r s of
        None \<Rightarrow> ([], s)
      | Some (pre, rest, g) \<Rightarrow>
          if length rest < length s
          then (case re_pieces r rest of (ps, final) \<Rightarrow> ((pre, g) # ps, final))
          else (case s of [] \<Rightarrow> ([], s)
                | c # cs \<Rightarrow> (case re_pieces r cs of
                     ([], final) \<Rightarrow> ([], c # final)
                   | ((p, g') # ps, final) \<Rightarrow> ((c # p, g') # ps, final))))"
  by pat_completeness auto
termination
  by (relation "measure (\<lambda>(r, s). length s)") auto

text \<open>\<open>re.split\<close> with a pattern that has no group, and with a pattern that has the one
  group 1 (whose text, or \<open>None\<close>, follows each piece).\<close>

definition re_split :: "regex \<Rightarrow> ustr \<Rightarrow> ustr list" where
  "re_split r s = (case re_pieces r s of (ps, final) \<Rightarrow> map fst ps @ [final])"

definition re_split1 :: "regex \<Rightarrow> ustr \<Rightarrow> ustr option list" where
  "re_split1 r s =
     (case re_pieces r s of (ps, final) \<Rightarrow>
        concat (map (\<lambda>(p, g). [Some p, map_of g 1]) ps) @ [Some final])"

text \<open>Shorthands to write the patterns: a literal text, a literal text under
  \<open>re.IGNORECASE\<close>, one or more, exactly four.\<close>

fun lits :: "ustr \<Rightarrow> regex" where
  "lits [] = Eps"
| "lits [c] = Atom (Lit c)"
| "lits (c # cs) = Seq (Atom (Lit c)) (lits cs)"

fun litsI :: "ustr \<Rightarrow> regex" where
  "litsI [] = Eps"
| "litsI [c] = Atom (LitI (to_lower c))"
| "litsI (c # cs) = Seq (Atom (LitI (to_lower c))) (litsI cs)"

definition Plus :: "regex \<Rightarrow> regex" where
  "Plus r = Seq r (Star r)"

definition Four :: "regex \<Rightarrow> regex" where
  "Four r = Seq r (Seq r (Seq r r))"




section \<open>Values\<close>

text \<open>
  The values a cell of a DataFrame holds in this program: Python's \<open>None\<close>, the float
  \<open>nan\<close>, \<open>pd.NA\<close>, \<open>pd.NaT\<close>, a \<open>str\<close>, an \<open>int\<close>, a float with an integral
  value, a \<open>Timestamp\<close> (a calendar date and the nanoseconds since midnight), and a
  list of such scalars (the program builds no list of lists). Exceptions are values of
  \<open>error\<close>; \<open>NotModelled\<close> marks the few places, none of which the program reaches, where
  the result would be a text this model does not build (the \<open>str\<close> of a list or of a
  \<open>Timestamp\<close>, of a float beyond 16 digits) or a reference to no object.
\<close>

datatype date = Date (year: int) (month: int) (day: int)

datatype scalar = PNone | NaN | NA | NaT | Str ustr | PInt int | PFloat int | Timestamp date int

datatype cell = S scalar | L "scalar list"

datatype error = TypeError | ValueError | IndexError | KeyError | AttributeError
  | OverflowError | NotModelled

text \<open>\<open>pd.isna\<close> and \<open>pd.notna\<close> on a scalar.\<close>

fun isna :: "scalar \<Rightarrow> bool" where
  "isna PNone = True"
| "isna NaN = True"
| "isna NA = True"
| "isna NaT = True"
| "isna _ = False"

text \<open>\<open>str(n)\<close> of an \<open>int\<close>, and \<open>int(s)\<close> of a \<open>str\<close>: white space around, one sign,
  decimal digits of any script with single underscores between them, and no more than
  4300 digits (the default \<open>sys.int_max_str_digits\<close>); \<open>None\<close> stands for \<open>ValueError\<close>.\<close>

fun str_nat :: "nat \<Rightarrow> ustr" where
  "str_nat n = (if n < 10 then [48 + int n] else str_nat (n div 10) @ [48 + int (n mod 10)])"

definition str_int :: "int \<Rightarrow> ustr" where
  "str_int i = (if i < 0 then 45 # str_nat (nat (- i)) else str_nat (nat i))"

fun int_digits :: "ustr \<Rightarrow> int list option" where
  "int_digits [] = None"
| "int_digits [c] = (case digit_value c of None \<Rightarrow> None | Some d \<Rightarrow> Some [d])"
| "int_digits (c # c' # cs) =
     (case digit_value c of
        None \<Rightarrow> None
      | Some d \<Rightarrow>
          (case (if c' = 95 then int_digits cs else int_digits (c' # cs)) of
             None \<Rightarrow> None
           | Some ds \<Rightarrow> Some (d # ds)))"

definition py_int :: "ustr \<Rightarrow> int option" where
  "py_int s =
     (let t = strip s;
          neg = (case t of [] \<Rightarrow> False | c # _ \<Rightarrow> c = 45);
          body = (case t of [] \<Rightarrow> [] | c # cs \<Rightarrow> if c = 45 \<or> c = 43 then cs else t)
      in case int_digits body of
           None \<Rightarrow> None
         | Some ds \<Rightarrow>
             if 4300 < length ds then None
             else Some ((if neg then - 1 else 1) * foldl (\<lambda>a d. 10 * a + d) 0 ds))"

section \<open>Cleaning helpers\<close>

definition NA_REPR :: ustr where
  "NA_REPR = u ''NA''"

definition RECOGNIZED_PARTIES :: "ustr list" where
  "RECOGNIZED_PARTIES = [u ''Unaffiliated'', u ''Federalist'', u ''Democratic-Republican'',
     u ''National Republican'', u ''Democratic'', u ''Whig'', u ''National Union'',
     u ''Republican'']"

text \<open>\<^verbatim>\<open>r'\[.*?\]'\<close>\<close>

definition footnote_re :: regex where
  "footnote_re = Seq (Atom (Lit 91)) (Seq (Lazy (Atom Dot)) (Atom (Lit 93)))"

definition remove_footnotes :: "cell \<Rightarrow> cell" where
  "remove_footnotes text =
     (case text of
        S (Str s) \<Rightarrow> S (Str (strip (re_sub footnote_re [] s)))
      | _ \<Rightarrow> text)"

text \<open>\<^verbatim>\<open>r'\s*-\s*'\<close> and \<^verbatim>\<open>r'\s+'\<close>\<close>

definition dash_re :: regex where
  "dash_re = Seq (Star (Atom Space)) (Seq (Atom (Lit 45)) (Star (Atom Space)))"

definition spaces_re :: regex where
  "spaces_re = Plus (Atom Space)"

text \<open>The loop of \<open>extract_parties\<close> over \<open>parts\<close>, with its two variables \<open>found\<close> and
  \<open>current\<close>, and the test after the loop.\<close>

fun parties_loop :: "ustr list \<Rightarrow> ustr list \<Rightarrow> ustr \<Rightarrow> ustr list" where
  "parties_loop [] found current =
     (if current \<in> set RECOGNIZED_PARTIES then found @ [current] else found)"
| "parties_loop (part # parts) found current =
     (let current' = (if current \<noteq> [] then current @ u '' '' @ part else part)
      in if current' \<in> set RECOGNIZED_PARTIES
         then parties_loop parts (found @ [current']) []
         else parties_loop parts found current')"

definition extract_parties :: "cell \<Rightarrow> cell" where
  "extract_parties text =
     (case text of
        S (Str s) \<Rightarrow>
          (let t1 = re_sub dash_re (u ''-'') s;
               t2 = title (strip (re_sub spaces_re (u '' '') t1));
               parts = split_ws t2
           in L (map Str (parties_loop parts [] [])))
      | _ \<Rightarrow> text)"

text \<open>\<^verbatim>\<open>r'(Vacant throughout presidency|Vacant.*?\d{4})'\<close> with \<open>re.IGNORECASE\<close>\<close>

definition vacancy_re :: regex where
  "vacancy_re = Group 1 (Alt (litsI (u ''Vacant throughout presidency''))
     (Seq (litsI (u ''Vacant'')) (Seq (Lazy (Atom Dot)) (Four (Atom Digit)))))"

definition extract_vice_presidents :: "cell \<Rightarrow> cell" where
  "extract_vice_presidents text =
     (case text of
        S (Str s) \<Rightarrow>
          (let t1 = map (\<lambda>c. if c = nbsp then 32 else c) s;
               t2 = strip (re_sub spaces_re (u '' '') t1);
               split_text = re_split1 vacancy_re t2
           in L (concat (map (\<lambda>token. case token of
                                 None \<Rightarrow> []
                               | Some t \<Rightarrow> if t \<noteq> [] then [Str (strip t)] else [])
                             split_text)))
      | _ \<Rightarrow> text)"

text \<open>The loop of \<open>extract_election_dates\<close> over the tokens, appending to \<open>years\<close>.\<close>

fun election_loop :: "ustr list \<Rightarrow> scalar list \<Rightarrow> scalar list" where
  "election_loop [] years = years"
| "election_loop (s # ss) years =
     (let s' = (if endash \<in> set s
                then (case split_on endash s of [] \<Rightarrow> [] | p # _ \<Rightarrow> p) else s)
      in case py_int s' of
           Some n \<Rightarrow> election_loop ss (years @ [PInt n])
         | None \<Rightarrow> election_loop ss (years @ [NA]))"

definition extract_election_dates :: "cell \<Rightarrow> cell" where
  "extract_election_dates text =
     (case text of
        S (Str s) \<Rightarrow> L (election_loop (split_ws s) [])
      | _ \<Rightarrow> text)"

text \<open>\<^verbatim>\<open>r'(.*?)\s*\((?:(\d{4})-(\d{4})|b\. (\d{4}))\)'\<close>, the dash being the en dash.
  \<open>re.match\<close> raises \<open>TypeError\<close> when its second argument is not a string; \<open>group\<close> is
  \<open>match.group(n)\<close>, which is \<open>None\<close> for a group that took no part in the match.\<close>

definition name_re :: regex where
  "name_re = Seq (Group 1 (Lazy (Atom Dot))) (Seq (Star (Atom Space)) (Seq (Atom (Lit 40))
     (Seq (Alt (Seq (Group 2 (Four (Atom Digit)))
                 (Seq (Atom (Lit endash)) (Group 3 (Four (Atom Digit)))))
               (Seq (lits (u ''b. '')) (Group 4 (Four (Atom Digit)))))
          (Atom (Lit 41)))))"

definition group :: "caps \<Rightarrow> nat \<Rightarrow> scalar" where
  "group g n = (case map_of g n of None \<Rightarrow> PNone | Some t \<Rightarrow> Str t)"

fun truthy :: "scalar \<Rightarrow> bool" where
  "truthy PNone = False"
| "truthy (Str t) = (t \<noteq> [])"
| "truthy _ = True"

definition split_name_birth_death :: "cell \<Rightarrow> error + scalar list" where
  "split_name_birth_death text =
     (case text of
        S (Str s) \<Rightarrow>
          (case re_match name_re s of
             None \<Rightarrow> Inr [NA, NA, NA]
           | Some (rest, g) \<Rightarrow>
               (let name = group g 1;
                    birth = (if truthy (group g 2) then group g 2 else group g 4);
                    death = (if truthy (group g 3) then group g 3 else NA)
                in Inr [name, birth, death]))
      | _ \<Rightarrow> Inl TypeError)"

text \<open>\<^verbatim>\<open>r'\s*-\s*'\<close> with the en dash; \<open>re.split\<close> raises \<open>TypeError\<close> on a non-string.\<close>

definition term_re :: regex where
  "term_re = Seq (Star (Atom Space)) (Seq (Atom (Lit endash)) (Star (Atom Space)))"

definition split_term :: "cell \<Rightarrow> error + scalar list" where
  "split_term text =
     (case text of
        S (Str s) \<Rightarrow>
          (case re_split term_re s of
             [t0, t1] \<Rightarrow>
               (let start = strip t0; end = strip t1
                in Inr [Str start, if end = u ''Incumbent'' then NA else Str end])
           | _ \<Rightarrow> Inr [NA, NA])
      | _ \<Rightarrow> Inl TypeError)"




section \<open>DataFrames\<close>

text \<open>
  A DataFrame is its index (with the index's name) and its columns in order, each a label
  and the cells of the column. DataFrames are objects: the store is the list of the
  DataFrames that exist, and a reference is a position in it. \<open>df.copy()\<close> and a
  selection \<open>df[[...]]\<close> make a new object; an assignment \<open>df[col] = ...\<close> and the
  operations called with \<open>inplace=True\<close> change the object they are called on.
\<close>

record frame =
  index_name :: "ustr option"
  index :: "cell list"
  columns :: "(ustr \<times> cell list) list"

type_synonym store = "frame list"

type_synonym stmt = "frame \<Rightarrow> error + frame"

definition df_copy :: "store \<Rightarrow> nat \<Rightarrow> store \<times> (error + nat)" where
  "df_copy h r = (if r < length h then (h @ [h ! r], Inr (length h)) else (h, Inl NotModelled))"

text \<open>Statements that change the DataFrame at \<open>r\<close>, run in order up to the first that
  raises.\<close>

fun run_inplace :: "nat \<Rightarrow> stmt list \<Rightarrow> store \<Rightarrow> store \<times> (error + unit)" where
  "run_inplace r [] h = (h, Inr ())"
| "run_inplace r (st # sts) h =
     (if r < length h
      then (case st (h ! r) of
              Inl e \<Rightarrow> (h, Inl e)
            | Inr f \<Rightarrow> run_inplace r sts (h[r := f]))
      else (h, Inl NotModelled))"

fun mapE :: "('a \<Rightarrow> error + 'b) \<Rightarrow> 'a list \<Rightarrow> error + 'b list" where
  "mapE f [] = Inr []"
| "mapE f (x # xs) =
     (case f x of
        Inl e \<Rightarrow> Inl e
      | Inr y \<Rightarrow> (case mapE f xs of Inl e \<Rightarrow> Inl e | Inr ys \<Rightarrow> Inr (y # ys)))"

definition labels :: "frame \<Rightarrow> ustr list" where
  "labels f = map fst (columns f)"

definition getcol :: "ustr \<Rightarrow> frame \<Rightarrow> error + cell list" where
  "getcol c f = (case map_of (columns f) c of None \<Rightarrow> Inl KeyError | Some v \<Rightarrow> Inr v)"

definition setcol :: "ustr \<Rightarrow> cell list \<Rightarrow> frame \<Rightarrow> frame" where
  "setcol c v f =
     (if c \<in> set (labels f)
      then f\<lparr>columns := map (\<lambda>lv. if fst lv = c then (c, v) else lv) (columns f)\<rparr>
      else f\<lparr>columns := columns f @ [(c, v)]\<rparr>)"

text \<open>\<open>df.drop(columns=ls, inplace=True)\<close> and \<open>df.drop(df.columns[ps], axis=1, inplace=True)\<close>\<close>

definition drop_labels :: "ustr list \<Rightarrow> stmt" where
  "drop_labels ls f =
     (if list_all (\<lambda>l. l \<in> set (labels f)) ls
      then Inr (f\<lparr>columns := filter (\<lambda>lv. fst lv \<notin> set ls) (columns f)\<rparr>)
      else Inl KeyError)"

definition drop_positions :: "nat list \<Rightarrow> stmt" where
  "drop_positions ps f =
     (if list_all (\<lambda>p. p < length (columns f)) ps
      then drop_labels (map (\<lambda>p. labels f ! p) ps) f
      else Inl IndexError)"

text \<open>\<open>df.columns = names\<close> and \<open>df.set_index(name, inplace=True)\<close>\<close>

definition set_columns :: "ustr list \<Rightarrow> stmt" where
  "set_columns names f =
     (if length names = length (columns f)
      then Inr (f\<lparr>columns := zip names (map snd (columns f))\<rparr>)
      else Inl ValueError)"

definition set_index :: "ustr \<Rightarrow> stmt" where
  "set_index name f =
     (case getcol name f of
        Inl e \<Rightarrow> Inl e
      | Inr v \<Rightarrow> Inr (f\<lparr>index_name := Some name, index := v,
                         columns := filter (\<lambda>lv. fst lv \<noteq> name) (columns f)\<rparr>))"

text \<open>\<open>df[col] = df[col].apply(g)\<close>, for a \<open>g\<close> that cannot raise and for one that can.\<close>

definition assign_apply :: "ustr \<Rightarrow> (cell \<Rightarrow> cell) \<Rightarrow> stmt" where
  "assign_apply col g f =
     (case getcol col f of Inl e \<Rightarrow> Inl e | Inr v \<Rightarrow> Inr (setcol col (map g v) f))"

definition assign_applyE :: "ustr \<Rightarrow> (cell \<Rightarrow> error + cell) \<Rightarrow> stmt" where
  "assign_applyE col g f =
     (case getcol col f of
        Inl e \<Rightarrow> Inl e
      | Inr v \<Rightarrow> (case mapE g v of Inl e \<Rightarrow> Inl e | Inr v' \<Rightarrow> Inr (setcol col v' f)))"

text \<open>
  \<open>df[names] = df[col].apply(g)\<close> where \<open>g\<close> returns a Series for each row: the Series
  become the rows of a DataFrame whose columns are assigned to \<open>names\<close> in order. On a
  DataFrame without rows \<open>apply\<close> returns an empty Series, whose assignment to several
  columns raises \<open>ValueError\<close>.
\<close>

definition assign_split :: "ustr list \<Rightarrow> ustr \<Rightarrow> (cell \<Rightarrow> error + scalar list) \<Rightarrow> stmt" where
  "assign_split names col g f =
     (case getcol col f of
        Inl e \<Rightarrow> Inl e
      | Inr v \<Rightarrow>
          (case mapE g v of
             Inl e \<Rightarrow> Inl e
           | Inr rows \<Rightarrow>
               if rows = [] then Inl ValueError
               else if list_all (\<lambda>row. length row = length names) rows
               then Inr (fold (\<lambda>i. setcol (names ! i) (map (\<lambda>row. S (row ! i)) rows))
                           [0 ..< length names] f)
               else Inl NotModelled))"

text \<open>\<open>df[names]\<close>: a new DataFrame with these columns.\<close>

definition select :: "ustr list \<Rightarrow> store \<Rightarrow> nat \<Rightarrow> store \<times> (error + nat)" where
  "select names h r =
     (if r < length h
      then (case mapE (\<lambda>c. getcol c (h ! r)) names of
              Inl e \<Rightarrow> (h, Inl e)
            | Inr vs \<Rightarrow> (h @ [(h ! r)\<lparr>columns := zip names vs\<rparr>], Inr (length h)))
      else (h, Inl NotModelled))"

section \<open>Column types\<close>

text \<open>
  \<open>astype('string')\<close>, \<open>astype('Int64')\<close> (which reads a text cell with \<open>int()\<close>) and
  \<open>pd.to_datetime(..., errors='coerce')\<close>, cell by cell. What \<open>to_datetime\<close> makes of a
  text or a number is pandas' own and is a parameter here: \<open>dparse col x\<close> is the
  timestamp of the cell \<open>x\<close> of the column \<open>col\<close>, or \<open>None\<close> if it has none; with
  \<open>errors='coerce'\<close> a cell without a timestamp becomes \<open>NaT\<close>.
\<close>

type_synonym dparser = "cell list \<Rightarrow> scalar \<Rightarrow> (date \<times> int) option"

definition str_float :: "int \<Rightarrow> error + ustr" where
  "str_float n = (if \<bar>n\<bar> < 10 ^ 16 then Inr (str_int n @ u ''.0'') else Inl NotModelled)"

fun astype_string :: "cell \<Rightarrow> error + cell" where
  "astype_string (S (Str t)) = Inr (S (Str t))"
| "astype_string (S (PInt n)) = Inr (S (Str (str_int n)))"
| "astype_string (S (PFloat n)) =
     (case str_float n of Inl e \<Rightarrow> Inl e | Inr t \<Rightarrow> Inr (S (Str t)))"
| "astype_string (S (Timestamp d ns)) = Inl NotModelled"
| "astype_string (S x) = Inr (S NA)"
| "astype_string (L xs) = Inl NotModelled"

definition int64_ok :: "int \<Rightarrow> bool" where
  "int64_ok n = (- (2 ^ 63) \<le> n \<and> n < 2 ^ 63)"

fun astype_Int64 :: "cell \<Rightarrow> error + cell" where
  "astype_Int64 (S (Str t)) =
     (case py_int t of
        None \<Rightarrow> Inl ValueError
      | Some n \<Rightarrow> if int64_ok n then Inr (S (PInt n)) else Inl OverflowError)"
| "astype_Int64 (S (PInt n)) = Inr (S (PInt n))"
| "astype_Int64 (S (PFloat n)) = Inr (S (PInt n))"
| "astype_Int64 (S (Timestamp d ns)) = Inl TypeError"
| "astype_Int64 (S x) = Inr (S NA)"
| "astype_Int64 (L xs) = Inl TypeError"

fun to_datetime_cell :: "(scalar \<Rightarrow> (date \<times> int) option) \<Rightarrow> cell \<Rightarrow> cell" where
  "to_datetime_cell p (S (Timestamp d ns)) = S (Timestamp d ns)"
| "to_datetime_cell p (S x) =
     (if isna x then S NaT
      else (case p x of None \<Rightarrow> S NaT | Some (d, ns) \<Rightarrow> S (Timestamp d ns)))"
| "to_datetime_cell p (L xs) = S NaT"

definition to_datetime :: "dparser \<Rightarrow> cell list \<Rightarrow> cell list" where
  "to_datetime dparse col = map (to_datetime_cell (dparse col)) col"

definition assign_to_datetime :: "dparser \<Rightarrow> ustr \<Rightarrow> stmt" where
  "assign_to_datetime dparse col f =
     (case getcol col f of
        Inl e \<Rightarrow> Inl e
      | Inr v \<Rightarrow> Inr (setcol col (to_datetime dparse v) f))"


text \<open>
  Two DataFrames agree off the columns \<open>D\<close> when they have the same index, the same
  labels in the same order, and the same cells in every column that is not one of \<open>D\<close>.
\<close>

definition agree_off :: "ustr list \<Rightarrow> frame \<Rightarrow> frame \<Rightarrow> bool" where
  "agree_off D f f' =
     (index_name f = index_name f' \<and> index f = index f' \<and> labels f = labels f'
      \<and> list_all (\<lambda>c. c \<in> set D \<or> getcol c f = getcol c f') (labels f))"

section \<open>Cleaning the raw table\<close>

definition NULLABLE_INT_COLS :: "ustr list" where
  "NULLABLE_INT_COLS = [u ''birth'', u ''death'']"

definition DATETIME_COLS :: "ustr list" where
  "DATETIME_COLS = [u ''term_start'', u ''term_end'']"

definition LIST_COLS :: "ustr list" where
  "LIST_COLS = [u ''party'', u ''election'', u ''vice_president'']"

text \<open>The statements of \<open>clean_presidents_df\<close> on the copy, up to the reordering of the
  columns, and those on the reordered DataFrame.\<close>

definition clean_stmts :: "stmt list" where
  "clean_stmts =
     [drop_positions [1, 4],
      set_columns [u ''number'', u ''name_birth_death'', u ''term'', u ''party'',
        u ''election'', u ''vice_president''],
      set_index (u ''number'')]
     @ map (\<lambda>col. assign_apply col remove_footnotes)
         [u ''name_birth_death'', u ''vice_president'', u ''party'', u ''term'']
     @ [assign_apply (u ''party'') extract_parties,
        assign_apply (u ''vice_president'') extract_vice_presidents,
        assign_apply (u ''election'') extract_election_dates,
        assign_split [u ''name'', u ''birth'', u ''death''] (u ''name_birth_death'')
          split_name_birth_death,
        assign_split [u ''term_start'', u ''term_end''] (u ''term'') split_term,
        drop_labels [u ''name_birth_death'', u ''term'']]"

definition type_stmts :: "dparser \<Rightarrow> stmt list" where
  "type_stmts dparse =
     [assign_applyE (u ''name'') astype_string,
      assign_applyE (u ''birth'') astype_Int64,
      assign_applyE (u ''death'') astype_Int64,
      assign_to_datetime dparse (u ''term_start''),
      assign_to_datetime dparse (u ''term_end'')]"

definition clean_presidents_df :: "dparser \<Rightarrow> store \<Rightarrow> nat \<Rightarrow> store \<times> (error + nat)" where
  "clean_presidents_df dparse h raw_df =
     (case df_copy h raw_df of
        (h1, Inl e) \<Rightarrow> (h1, Inl e)
      | (h1, Inr df) \<Rightarrow>
     (case run_inplace df clean_stmts h1 of
        (h2, Inl e) \<Rightarrow> (h2, Inl e)
      | (h2, Inr _) \<Rightarrow>
     (case select [u ''name'', u ''birth'', u ''death'', u ''term_start'', u ''term_end'',
                   u ''party'', u ''election'', u ''vice_president''] h2 df of
        (h3, Inl e) \<Rightarrow> (h3, Inl e)
      | (h3, Inr df') \<Rightarrow>
     (case run_inplace df' (type_stmts dparse) h3 of
        (h4, Inl e) \<Rightarrow> (h4, Inl e)
      | (h4, Inr _) \<Rightarrow> (h4, Inr df')))))"

section \<open>Saving and loading\<close>

text \<open>The truth value of a cell, which \<open>not lst\<close> asks for: \<open>bool(pd.NA)\<close> raises
  \<open>TypeError\<close>.\<close>

fun cell_truthy :: "cell \<Rightarrow> error + bool" where
  "cell_truthy (L xs) = Inr (xs \<noteq> [])"
| "cell_truthy (S NA) = Inl TypeError"
| "cell_truthy (S PNone) = Inr False"
| "cell_truthy (S (Str t)) = Inr (t \<noteq> [])"
| "cell_truthy (S (PInt n)) = Inr (n \<noteq> 0)"
| "cell_truthy (S (PFloat n)) = Inr (n \<noteq> 0)"
| "cell_truthy (S x) = Inr True"

fun str_scalar :: "scalar \<Rightarrow> error + ustr" where
  "str_scalar (Str t) = Inr t"
| "str_scalar (PInt n) = Inr (str_int n)"
| "str_scalar (PFloat n) = str_float n"
| "str_scalar PNone = Inr (u ''None'')"
| "str_scalar NaN = Inr (u ''nan'')"
| "str_scalar NA = Inr (u ''<NA>'')"
| "str_scalar NaT = Inr (u ''NaT'')"
| "str_scalar (Timestamp d ns) = Inl NotModelled"

definition item_text :: "scalar \<Rightarrow> error + ustr" where
  "item_text item = (if isna item then Inr (u ''NA'') else str_scalar item)"

definition list_to_pipe_string :: "cell \<Rightarrow> error + cell" where
  "list_to_pipe_string lst =
     (case cell_truthy lst of
        Inl e \<Rightarrow> Inl e
      | Inr b \<Rightarrow>
          if \<not> b then Inr (S NA)
          else (case lst of
                  L xs \<Rightarrow> (case mapE item_text xs of
                             Inl e \<Rightarrow> Inl e
                           | Inr ts \<Rightarrow> Inr (S (Str (join (u '' | '') ts))))
                | _ \<Rightarrow> Inr lst))"

definition pipe_item :: "ustr \<Rightarrow> scalar" where
  "pipe_item item = (if strip item = u ''NA'' then NA else Str (strip item))"

fun pipe_string_to_list :: "cell \<Rightarrow> error + cell" where
  "pipe_string_to_list (S (Str t)) = Inr (L (map pipe_item (split_on 124 t)))"
| "pipe_string_to_list (S x) = (if isna x then Inr (L [NA]) else Inr (S x))"
| "pipe_string_to_list (L xs) = Inl NotModelled"

text \<open>The cell of a date column as \<open>save_csv\<close> formats it.\<close>

definition month_names :: "ustr list" where
  "month_names = [u ''January'', u ''February'', u ''March'', u ''April'', u ''May'', u ''June'',
     u ''July'', u ''August'', u ''September'', u ''October'', u ''November'', u ''December'']"

definition month_name :: "date \<Rightarrow> ustr" where
  "month_name d = (if 1 \<le> month d \<and> month d \<le> 12 then month_names ! nat (month d - 1) else [])"

fun format_date :: "cell \<Rightarrow> error + cell" where
  "format_date (S (Timestamp d ns)) =
     Inr (S (Str (month_name d @ u '' '' @ str_int (day d) @ u '', '' @ str_int (year d))))"
| "format_date (S x) = (if isna x then Inr (S NaT) else Inl AttributeError)"
| "format_date (L xs) = Inl NotModelled"

text \<open>
  The file is modelled as the grid of its cell texts, the header row first: CSV quoting
  makes writing a text and reading it back lossless, and the byte order mark written at
  the start is skipped on reading. \<open>to_csv(na_rep='NA')\<close> writes \<open>NA\<close> for a null cell
  and the \<open>str\<close> of any other.
\<close>

record csv =
  header :: "ustr list"
  rows :: "ustr list list"

definition cell_text :: "cell \<Rightarrow> error + ustr" where
  "cell_text c =
     (case c of
        S x \<Rightarrow> if isna x then Inr NA_REPR else str_scalar x
      | L xs \<Rightarrow> Inl NotModelled)"

fun row_cells :: "cell list list \<Rightarrow> cell list list" where
  "row_cells [] = []"
| "row_cells (col # cols) =
     (if cols = [] then map (\<lambda>c. [c]) col
      else map (\<lambda>(c, r). c # r) (zip col (row_cells cols)))"

definition to_csv :: "frame \<Rightarrow> error + csv" where
  "to_csv f =
     (case mapE (mapE cell_text) (row_cells (index f # map snd (columns f))) of
        Inl e \<Rightarrow> Inl e
      | Inr rs \<Rightarrow>
          Inr \<lparr>header = (case index_name f of None \<Rightarrow> [] | Some n \<Rightarrow> n) # labels f,
               rows = rs\<rparr>)"

definition save_stmts :: "stmt list" where
  "save_stmts =
     map (\<lambda>col. assign_applyE col format_date) DATETIME_COLS
     @ map (\<lambda>col. assign_applyE col list_to_pipe_string) LIST_COLS"

text \<open>\<open>save_csv\<close> returns nothing; the model returns the file it writes. Where the file
  goes (\<open>filename\<close>, \<open>output\<close>, the folders made) is not modelled.\<close>

definition save_csv :: "store \<Rightarrow> nat \<Rightarrow> store \<times> (error + csv)" where
  "save_csv h df =
     (case df_copy h df of
        (h1, Inl e) \<Rightarrow> (h1, Inl e)
      | (h1, Inr df_temp) \<Rightarrow>
     (case run_inplace df_temp save_stmts h1 of
        (h2, Inl e) \<Rightarrow> (h2, Inl e)
      | (h2, Inr _) \<Rightarrow>
          (if df_temp < length h2
           then (case to_csv (h2 ! df_temp) of
                   Inl e \<Rightarrow> (h2, Inl e)
                 | Inr file \<Rightarrow> (h2, Inr file))
           else (h2, Inl NotModelled))))"


text \<open>
  \<open>pd.read_csv(filepath, index_col=0, na_values='NA')\<close>. A cell whose text is one of the
  null markers (pandas' defaults and \<open>NA\<close>) is null. A column whose other cells are all
  integers (an optional sign and ASCII digits, white space around, within 64 bits) is
  numeric: of integers if it has no null cell, of floats if it has one. Any other column
  holds its texts. Columns of decimal fractions or truth values, which pandas would also
  convert, duplicate labels, which it would rename, and rows of another length than the
  header are outside this model; the first two are kept as texts and labels.
\<close>

definition NA_VALUES :: "ustr list" where
  "NA_VALUES = [u ''NA'', [], u ''#N/A'', u ''#N/A N/A'', u ''#NA'', u ''-1.#IND'',
     u ''-1.#QNAN'', u ''-NaN'', u ''-nan'', u ''1.#IND'', u ''1.#QNAN'', u ''<NA>'', u ''N/A'',
     u ''NULL'', u ''NaN'', u ''None'', u ''n/a'', u ''nan'', u ''null'']"

definition ascii_space :: "int \<Rightarrow> bool" where
  "ascii_space c = (c = 32 \<or> (9 \<le> c \<and> c \<le> 13))"

definition ascii_digit :: "int \<Rightarrow> bool" where
  "ascii_digit c = (48 \<le> c \<and> c \<le> 57)"

definition csv_int :: "ustr \<Rightarrow> int option" where
  "csv_int s =
     (let t = rev (dropWhile ascii_space (rev (dropWhile ascii_space s)));
          neg = (case t of [] \<Rightarrow> False | c # _ \<Rightarrow> c = 45);
          body = (case t of [] \<Rightarrow> [] | c # cs \<Rightarrow> if c = 45 \<or> c = 43 then cs else t);
          n = (if neg then - 1 else 1) * foldl (\<lambda>a c. 10 * a + (c - 48)) 0 body
      in if body \<noteq> [] \<and> list_all ascii_digit body \<and> int64_ok n then Some n else None)"

definition infer_column :: "ustr list \<Rightarrow> error + cell list" where
  "infer_column texts =
     (let vals = map (\<lambda>t. if t \<in> set NA_VALUES then None else Some t) texts;
          nums = map (\<lambda>v. case v of None \<Rightarrow> None | Some t \<Rightarrow> csv_int t) vals
      in if list_all (\<lambda>v. v = None \<or> (case v of None \<Rightarrow> None | Some t \<Rightarrow> csv_int t) \<noteq> None) vals
         then (if list_all (\<lambda>v. v \<noteq> None) vals
               then Inr (map (\<lambda>n. case n of None \<Rightarrow> S NaN | Some i \<Rightarrow> S (PInt i)) nums)
               else if list_all (\<lambda>n. case n of None \<Rightarrow> True | Some i \<Rightarrow> \<bar>i\<bar> < 2 ^ 53) nums
               then Inr (map (\<lambda>n. case n of None \<Rightarrow> S NaN | Some i \<Rightarrow> S (PFloat i)) nums)
               else Inl NotModelled)
         else Inr (map (\<lambda>v. case v of None \<Rightarrow> S NaN | Some t \<Rightarrow> S (Str t)) vals))"

definition read_csv :: "csv \<Rightarrow> error + frame" where
  "read_csv file =
     (case header file of
        [] \<Rightarrow> Inl ValueError
      | h0 # hs \<Rightarrow>
          if list_all (\<lambda>r. length r = length (header file)) (rows file)
          then (case mapE (\<lambda>i. infer_column (map (\<lambda>r. r ! i) (rows file)))
                       [0 ..< length (header file)] of
                  Inl e \<Rightarrow> Inl e
                | Inr [] \<Rightarrow> Inl NotModelled
                | Inr (c0 # cs) \<Rightarrow>
                    Inr \<lparr>index_name = (if h0 = [] then None else Some h0), index = c0,
                         columns = zip hs cs\<rparr>)
          else Inl NotModelled)"

text \<open>\<open>lambda lst: [pd.NA if pd.isna(x) else int(x) for x in lst]\<close>: a list is gone
  through element by element, a text character by character, and any other value cannot
  be iterated.\<close>

fun int_of_scalar :: "scalar \<Rightarrow> error + scalar" where
  "int_of_scalar (Str t) = (case py_int t of None \<Rightarrow> Inl ValueError | Some n \<Rightarrow> Inr (PInt n))"
| "int_of_scalar (PInt n) = Inr (PInt n)"
| "int_of_scalar (PFloat n) = Inr (PInt n)"
| "int_of_scalar (Timestamp d ns) = Inl TypeError"
| "int_of_scalar x = Inr NA"

fun election_ints :: "cell \<Rightarrow> error + cell" where
  "election_ints (L xs) = (case mapE int_of_scalar xs of Inl e \<Rightarrow> Inl e | Inr ys \<Rightarrow> Inr (L ys))"
| "election_ints (S (Str t)) =
     (case mapE (\<lambda>c. int_of_scalar (Str [c])) t of Inl e \<Rightarrow> Inl e | Inr ys \<Rightarrow> Inr (L ys))"
| "election_ints (S x) = Inl TypeError"

definition load_stmts :: "dparser \<Rightarrow> stmt list" where
  "load_stmts dparse =
     map (\<lambda>col. assign_to_datetime dparse col) DATETIME_COLS
     @ map (\<lambda>col. assign_applyE col pipe_string_to_list) LIST_COLS
     @ map (\<lambda>col. assign_applyE col astype_Int64) NULLABLE_INT_COLS
     @ [assign_applyE (u ''election'') election_ints,
        assign_applyE (u ''name'') astype_string]"

definition load_csv :: "dparser \<Rightarrow> store \<Rightarrow> csv \<Rightarrow> store \<times> (error + nat)" where
  "load_csv dparse h file =
     (case read_csv file of
        Inl e \<Rightarrow> (h, Inl e)
      | Inr f \<Rightarrow>
          (case run_inplace (length h) (load_stmts dparse) (h @ [f]) of
             (h1, Inl e) \<Rightarrow> (h1, Inl e)
           | (h1, Inr _) \<Rightarrow> (h1, Inr (length h))))"

text \<open>
  One reading of dates for the parameter \<open>dparse\<close>: the text \<open>Month D, YYYY\<close> that
  \<open>save_csv\<close> writes, for a date pandas can hold (the years 1678 to 2261), is the
  midnight of that date, as in pandas. Nothing else is given a timestamp here, though
  pandas reads other forms too.
\<close>

fun index_of :: "ustr \<Rightarrow> ustr list \<Rightarrow> int \<Rightarrow> int option" where
  "index_of x [] i = None"
| "index_of x (y # ys) i = (if x = y then Some i else index_of x ys (i + 1))"

definition days_in_month :: "int \<Rightarrow> int \<Rightarrow> int" where
  "days_in_month y m =
     (if m = 2 then (if y mod 4 = 0 \<and> (y mod 100 \<noteq> 0 \<or> y mod 400 = 0) then 29 else 28)
      else if m = 4 \<or> m = 6 \<or> m = 9 \<or> m = 11 then 30 else 31)"

definition ascii_number :: "ustr \<Rightarrow> int option" where
  "ascii_number t =
     (if t \<noteq> [] \<and> list_all ascii_digit t then Some (foldl (\<lambda>a c. 10 * a + (c - 48)) 0 t)
      else None)"

definition parse_month_day_year :: "ustr \<Rightarrow> (date \<times> int) option" where
  "parse_month_day_year t =
     (case split_on 32 t of
        [mt, dt, yt] \<Rightarrow>
          (case (index_of mt month_names 1,
                 if dt \<noteq> [] \<and> last dt = 44 \<and> length dt \<le> 3 then ascii_number (butlast dt) else None,
                 if length yt = 4 then ascii_number yt else None) of
             (Some m, Some d, Some y) \<Rightarrow>
               if 1 \<le> d \<and> d \<le> days_in_month y m \<and> 1678 \<le> y \<and> y \<le> 2261
               then Some (Date y m d, 0) else None
           | _ \<Rightarrow> None)
      | _ \<Rightarrow> None)"

definition month_day_year :: dparser where
  "month_day_year col x = (case x of Str t \<Rightarrow> parse_month_day_year t | _ \<Rightarrow> None)"


section \<open>A one-row table\<close>

text \<open>The row of John Adams as the raw table has it (eight columns, the second and the
  fifth without text), the table \<open>clean_presidents_df\<close> makes of it, and the file
  \<open>save_csv\<close> writes for that table.\<close>

definition raw_adams :: frame where
  "raw_adams = \<lparr>index_name = None, index = [S (PInt 0)],
     columns =
       [(u ''No.'', [S (PInt 2)]),
        (u ''Portrait'', [S NaN]),
        (u ''Name (birth'' @ [endash] @ u ''death)'',
           [S (Str (u ''John Adams (1735'' @ [endash] @ u ''1826)''))]),
        (u ''Term[16]'',
           [S (Str (u ''March 4, 1797 '' @ [endash] @ u '' March 4, 1801''))]),
        (u ''Party[b][17]'', [S NaN]),
        (u ''Party[b][17].1'', [S (Str (u ''Federalist''))]),
        (u ''Election'', [S (Str (u ''1796''))]),
        (u ''Vice President[18]'', [S (Str (u ''Thomas Jefferson[c]''))])]\<rparr>"

definition adams_table :: frame where
  "adams_table = \<lparr>index_name = Some (u ''number''), index = [S (PInt 2)],
     columns =
       [(u ''name'', [S (Str (u ''John Adams''))]),
        (u ''birth'', [S (PInt 1735)]),
        (u ''death'', [S (PInt 1826)]),
        (u ''term_start'', [S (Timestamp (Date 1797 3 4) 0)]),
        (u ''term_end'', [S (Timestamp (Date 1801 3 4) 0)]),
        (u ''party'', [L [Str (u ''Federalist'')]]),
        (u ''election'', [L [PInt 1796]]),
        (u ''vice_president'', [L [Str (u ''Thomas Jefferson'')]])]\<rparr>"

definition adams_csv :: csv where
  "adams_csv = \<lparr>header = [u ''number'', u ''name'', u ''birth'', u ''death'', u ''term_start'',
       u ''term_end'', u ''party'', u ''election'', u ''vice_president''],
     rows = [[u ''2'', u ''John Adams'', u ''1735'', u ''1826'', u ''March 4, 1797'',
       u ''March 4, 1801'', u ''Federalist'', u ''1796'', u ''Thomas Jefferson'']]\<rparr>"





section \<open>The matcher finds what the pattern describes\<close>


declare ms.simps [simp del] re_sub.simps [simp del] re_pieces.simps [simp del]























section \<open>Splitting and trimming\<close>










section \<open>The pattern of the term\<close>










section \<open>The pattern of the name\<close>










section \<open>Tokens and election years\<close>





lemma split_ws_acc_tokens:
  "list_all (\<lambda>c. \<not> is_space c) cur \<Longrightarrow> t \<in> set (split_ws_acc cur s) \<Longrightarrow>
     t \<noteq> [] \<and> list_all (\<lambda>c. \<not> is_space c) t"
proof (induction s arbitrary: cur)
  case Nil
  then show ?case by (auto split: if_splits)
next
  case (Cons c s)
  show ?case
  proof (cases "is_space c")
    case True
    with Cons.prems have "t = rev cur \<and> cur \<noteq> [] \<or> t \<in> set (split_ws_acc [] s)"
      by (auto split: if_splits)
    then show ?thesis
    proof
      assume "t = rev cur \<and> cur \<noteq> []"
      with Cons.prems(1) show ?thesis by simp
    next
      assume "t \<in> set (split_ws_acc [] s)"
      with Cons.IH [of "[]"] show ?thesis by simp
    qed
  next
    case False
    with Cons.prems have "t \<in> set (split_ws_acc (c # cur) s)"
      "list_all (\<lambda>c. \<not> is_space c) (c # cur)" by simp_all
    with Cons.IH [of "c # cur"] show ?thesis by blast
  qed
qed

lemma split_ws_acc_concat:
  "concat (split_ws_acc cur s) = rev cur @ filter (\<lambda>c. \<not> is_space c) s"
  by (induction s arbitrary: cur) auto

lemma split_ws_tokens:
  "t \<in> set (split_ws s) \<Longrightarrow> t \<noteq> [] \<and> list_all (\<lambda>c. \<not> is_space c) t"
  using split_ws_acc_tokens [of "[]" t s] by (simp add: split_ws_def)

lemma split_ws_concat: "concat (split_ws s) = filter (\<lambda>c. \<not> is_space c) s"
  by (simp add: split_ws_def split_ws_acc_concat)

section \<open>The list codec\<close>






lemma list_to_pipe_string_NA: "list_to_pipe_string (S NA) = Inl TypeError"
  by (simp add: list_to_pipe_string_def)

lemma list_to_pipe_string_nan: "list_to_pipe_string (S NaN) = Inr (S NaN) \<and> cell_text (S NaN) = Inr NA_REPR"
  by (simp add: list_to_pipe_string_def cell_text_def)

section \<open>Objects that a call leaves alone\<close>

lemma run_inplace_length: "length (fst (run_inplace r sts h)) = length h"
  by (induction sts arbitrary: h) (auto split: sum.splits)

lemma run_inplace_other: "a \<noteq> r \<Longrightarrow> fst (run_inplace r sts h) ! a = h ! a"
  by (induction sts arbitrary: h) (auto split: sum.splits)

lemma df_copy_old: "a < length h \<Longrightarrow> fst (df_copy h r) ! a = h ! a"
  by (simp add: df_copy_def nth_append)

lemma df_copy_ref: "df_copy h r = (h1, Inr df) \<Longrightarrow> df = length h \<and> length h1 = Suc (length h)"
  by (auto simp: df_copy_def split: if_splits)

lemma select_old: "a < length h \<Longrightarrow> fst (select names h r) ! a = h ! a"
  by (simp add: select_def nth_append split: sum.splits)

lemma select_ref: "select names h r = (h1, Inr df) \<Longrightarrow> df = length h \<and> length h1 = Suc (length h)"
  by (auto simp: select_def split: if_splits sum.splits)

lemma clean_old:
  assumes "a < length h"
  shows "fst (clean_presidents_df dparse h r) ! a = h ! a"
proof (cases "df_copy h r")
  case (Pair h1 res1)
  have h1: "h1 ! a = h ! a" using df_copy_old [OF assms, of r] Pair by simp
  show ?thesis
  proof (cases res1)
    case (Inl e)
    with Pair h1 show ?thesis by (simp add: clean_presidents_df_def)
  next
    case (Inr df)
    with Pair have df: "df = length h" "length h1 = Suc (length h)"
      using df_copy_ref by blast+
    obtain h2 res2 where r2: "run_inplace df clean_stmts h1 = (h2, res2)" by force
    have h2: "h2 ! a = h ! a" "length h2 = Suc (length h)"
      using run_inplace_other [of a df clean_stmts h1] run_inplace_length [of df clean_stmts h1]
        r2 h1 df assms by auto
    show ?thesis
    proof (cases res2)
      case (Inl e)
      with Pair Inr r2 h2 show ?thesis by (simp add: clean_presidents_df_def)
    next
      case fin: (Inr x)
      let ?names = "[u ''name'', u ''birth'', u ''death'', u ''term_start'', u ''term_end'',
                   u ''party'', u ''election'', u ''vice_president'']"
      obtain h3 res3 where r3: "select ?names h2 df = (h3, res3)" by force
      have h3: "h3 ! a = h ! a"
        using select_old [of a h2 ?names df] r3 h2 assms by simp
      show ?thesis
      proof (cases res3)
        case (Inl e)
        with Pair Inr r2 fin r3 h3 show ?thesis by (simp add: clean_presidents_df_def)
      next
        case sel: (Inr df')
        with r3 have df': "df' = length h2" using select_ref by blast
        obtain h4 res4 where r4: "run_inplace df' (type_stmts dparse) h3 = (h4, res4)" by force
        have h4: "h4 ! a = h ! a"
          using run_inplace_other [of a df' "type_stmts dparse" h3] r4 h3 df' h2 assms by auto
        from Pair Inr r2 fin r3 sel r4 h4 show ?thesis
          by (cases res4) (simp_all add: clean_presidents_df_def)
      qed
    qed
  qed
qed

lemma save_old:
  assumes "a < length h"
  shows "fst (save_csv h r) ! a = h ! a"
proof (cases "df_copy h r")
  case (Pair h1 res1)
  have h1: "h1 ! a = h ! a" using df_copy_old [OF assms, of r] Pair by simp
  show ?thesis
  proof (cases res1)
    case (Inl e)
    with Pair h1 show ?thesis by (simp add: save_csv_def)
  next
    case (Inr df)
    with Pair have df: "df = length h" using df_copy_ref by blast
    obtain h2 res2 where r2: "run_inplace df save_stmts h1 = (h2, res2)" by force
    have h2: "h2 ! a = h ! a"
      using run_inplace_other [of a df save_stmts h1] r2 h1 df assms by auto
    from Pair Inr r2 h2 show ?thesis
      by (cases res2) (simp_all add: save_csv_def split: sum.splits)
  qed
qed

section \<open>Columns and the statements that assign them\<close>

lemma map_of_replace:
  "map_of (map (\<lambda>lv. if fst lv = c' then (c', v) else lv) xs) c
     = (if c = c' \<and> c' \<in> fst ` set xs then Some v else map_of xs c)"
proof (induction xs)
  case Nil
  then show ?case by simp
next
  case (Cons x xs)
  obtain a b where x: "x = (a, b)" by (cases x)
  show ?case
  proof (cases "c = c'")
    case False
    with Cons x show ?thesis by simp
  next
    case True
    show ?thesis
    proof (cases "a = c'")
      case a: True
      with True x show ?thesis by simp
    next
      case a: False
      with True x have "c' \<in> fst ` set (x # xs) \<longleftrightarrow> c' \<in> fst ` set xs" by auto
      with a True x Cons show ?thesis by simp
    qed
  qed
qed

lemma getcol_setcol: "getcol c (setcol c' v f) = (if c = c' then Inr v else getcol c f)"
proof (cases "c' \<in> set (labels f)")
  case True
  then show ?thesis
    by (simp add: getcol_def setcol_def labels_def map_of_replace)
next
  case False
  then have "map_of (columns f) c' = None" by (simp add: labels_def map_of_eq_None_iff)
  with False show ?thesis
    by (auto simp: getcol_def setcol_def map_add_def split: option.splits)
qed

lemma labels_setcol:
  "labels (setcol c v f) = (if c \<in> set (labels f) then labels f else labels f @ [c])"
  by (auto simp: setcol_def labels_def intro: map_idI)

lemma index_setcol: "index (setcol c v f) = index f \<and> index_name (setcol c v f) = index_name f"
  by (simp add: setcol_def)

lemma getcol_missing: "getcol c f = Inl KeyError \<longleftrightarrow> c \<notin> set (labels f)"
proof -
  have "getcol c f = Inl KeyError \<longleftrightarrow> map_of (columns f) c = None"
    by (simp add: getcol_def split: option.splits)
  then show ?thesis by (simp add: labels_def map_of_eq_None_iff)
qed

lemma getcol_cases: "getcol c f = Inl KeyError \<or> (\<exists>v. getcol c f = Inr v)"
  by (simp add: getcol_def split: option.splits)


lemma agree_off_getcol:
  assumes "agree_off D f f'" "c \<notin> set D"
  shows "getcol c f = getcol c f'"
proof (cases "c \<in> set (labels f)")
  case True
  with assms show ?thesis by (auto simp: agree_off_def list_all_iff)
next
  case False
  with assms(1) have "c \<notin> set (labels f')" by (simp add: agree_off_def)
  with False show ?thesis using getcol_missing by metis
qed

lemma agree_off_missing:
  "agree_off D f f' \<Longrightarrow> getcol c f = Inl KeyError \<longleftrightarrow> getcol c f' = Inl KeyError"
  by (simp add: getcol_missing agree_off_def)

lemma agree_off_setcol:
  assumes "agree_off D f f'" "c \<in> set D \<or> v = v'"
  shows "agree_off D (setcol c v f) (setcol c v' f')"
proof -
  from assms(1) have l: "labels f = labels f'" by (simp add: agree_off_def)
  have "c' \<in> set D \<or> getcol c' (setcol c v f) = getcol c' (setcol c v' f')" for c'
    using assms agree_off_getcol [OF assms(1), of c'] by (auto simp: getcol_setcol)
  then have "list_all (\<lambda>c'. c' \<in> set D \<or> getcol c' (setcol c v f) = getcol c' (setcol c v' f'))
     (labels (setcol c v f))" by (simp add: list_all_iff)
  with assms(1) l show ?thesis
    by (simp add: agree_off_def index_setcol labels_setcol)
qed


lemma sim_datetime:
  assumes "col \<in> set D" "agree_off D f f'"
  shows "rel_sum (=) (agree_off D) (assign_to_datetime p col f) (assign_to_datetime q col f')"
proof (cases "col \<in> set (labels f)")
  case True
  with assms(2) have "col \<in> set (labels f')" by (simp add: agree_off_def)
  with True obtain v v' where v: "getcol col f = Inr v" "getcol col f' = Inr v'"
    using getcol_missing getcol_cases by metis
  with agree_off_setcol [OF assms(2), of col] assms(1) show ?thesis
    by (simp add: assign_to_datetime_def)
next
  case False
  with assms(2) have "col \<notin> set (labels f')" by (simp add: agree_off_def)
  with False have "getcol col f = Inl KeyError" "getcol col f' = Inl KeyError"
    using getcol_missing by blast+
  then show ?thesis by (simp add: assign_to_datetime_def)
qed













section \<open>The date columns\<close>








section \<open>The one-row table, cleaned, saved and loaded\<close>

lemma adams_clean:
  "(case clean_presidents_df month_day_year [raw_adams] 0 of
      (h, res) \<Rightarrow> res = Inr 2 \<and> h ! 2 = adams_table)"
  by code_simp

lemma adams_save: "snd (save_csv [adams_table] 0) = Inr adams_csv"
  by code_simp

lemma adams_load: "snd (load_csv month_day_year [] adams_csv) = Inl TypeError"
  by code_simp




section \<open>The caller's DataFrame\<close>

text \<open>
  Claim C10. \<open>save_csv\<close> and \<open>clean_presidents_df\<close> never change the DataFrame passed to
  them: every DataFrame \<open>a\<close> that exists when the call is made, the argument \<open>df\<close> among
  them, is the same in every field in the store the call leaves, whether the call
  returns or raises. All the statements work on the copy and on the reordered selection,
  which are new objects.
\<close>

theorem callers_frame_unchanged:
  "a < length h \<Longrightarrow>
     fst (clean_presidents_df dparse h df) ! a = h ! a \<and> fst (save_csv h df) ! a = h ! a"
  by (simp add: clean_old save_old)

text \<open>
  The theorem at two calls that return: \<open>clean_presidents_df\<close> on the raw one-row table,
  which returns the cleaned table as a new object, and \<open>save_csv\<close> on the cleaned table,
  which writes its file. Each leaves its argument as it was.
\<close>

theorem callers_frame_unchanged_witness:
  "(0::nat) < length [raw_adams]
   \<and> snd (clean_presidents_df month_day_year [raw_adams] 0) = Inr 2
   \<and> fst (clean_presidents_df month_day_year [raw_adams] 0) ! 0 = raw_adams
   \<and> (0::nat) < length [adams_table]
   \<and> snd (save_csv [adams_table] 0) = Inr adams_csv
   \<and> fst (save_csv [adams_table] 0) ! 0 = adams_table"
proof -
  have raw: "(0::nat) < length [raw_adams]" and table: "(0::nat) < length [adams_table]"
    by simp_all
  from adams_clean have "snd (clean_presidents_df month_day_year [raw_adams] 0) = Inr 2"
    by (simp split: prod.splits)
  moreover from callers_frame_unchanged [OF raw, of month_day_year 0]
  have "fst (clean_presidents_df month_day_year [raw_adams] 0) ! 0 = raw_adams" by simp
  moreover from callers_frame_unchanged [OF table, of month_day_year 0]
  have "fst (save_csv [adams_table] 0) ! 0 = adams_table" by simp
  ultimately show ?thesis using adams_save by simp
qed

section \<open>The extractors on input that is not text\<close>

lemma guarded_extractors_pass_through:
  "(\<forall>t. x \<noteq> S (Str t)) \<Longrightarrow>
     remove_footnotes x = x \<and> extract_parties x = x \<and> extract_vice_presidents x = x
     \<and> extract_election_dates x = x"
  by (auto simp: remove_footnotes_def extract_parties_def extract_vice_presidents_def
      extract_election_dates_def split: cell.splits scalar.splits)

text \<open>
  Claim C2. Every text extractor returns an input that is not a string unchanged and
  does not raise. The four extractors with an \<open>isinstance\<close> test do
  (\<open>guarded_extractors_pass_through\<close>); \<open>split_name_birth_death\<close> and \<open>split_term\<close>
  have no such test and hand the value to \<open>re.match\<close> and \<open>re.split\<close>, which raise
  \<open>TypeError\<close>: on a missing cell (\<open>nan\<close>) and on \<open>None\<close> neither returns its input.
\<close>

theorem splitters_raise_on_missing:
  "split_name_birth_death (S NaN) = Inl TypeError \<and> split_term (S NaN) = Inl TypeError
   \<and> split_name_birth_death (S PNone) = Inl TypeError \<and> split_term (S PNone) = Inl TypeError"
  by (simp add: split_name_birth_death_def split_term_def)

section \<open>Parties\<close>

text \<open>
  Claim C3. \<open>extract_parties\<close> emits each recognized party name in order and drops the
  tokens that complete no recognized name. The first two examples of the claim hold. The
  third does not: a token that is no recognized name stays in \<open>current\<close>, which is
  reset only when a name is found, so no later name is found either, and
  \<open>XYZ Unaffiliated ABC\<close> yields the empty list instead of \<open>[Unaffiliated]\<close>.
\<close>

theorem extract_parties_examples:
  "extract_parties (S (Str (u ''Federalist''))) = L [Str (u ''Federalist'')]
   \<and> extract_parties (S (Str (u ''Democratic - Republican'')))
       = L [Str (u ''Democratic-Republican'')]
   \<and> extract_parties (S (Str (u ''XYZ Unaffiliated ABC''))) = L []"
  by code_simp

section \<open>Vice presidents\<close>

text \<open>
  Claim C5. \<open>extract_vice_presidents\<close> returns the trimmed segments with every empty
  segment discarded, so that no element is the empty string. The test \<open>if token\<close> is made
  before \<open>strip()\<close>: the single space between two vacancy messages passes it and is
  trimmed to the empty string, which the returned list then holds.
\<close>

theorem extract_vice_presidents_empty_element:
  "extract_vice_presidents
     (S (Str (u ''Vacant throughout presidency Vacant throughout presidency'')))
   = L [Str (u ''Vacant throughout presidency''), Str [],
        Str (u ''Vacant throughout presidency'')]"
  by code_simp

section \<open>Saving and loading a table\<close>

text \<open>
  Claim C1. For every table made by \<open>clean_presidents_df\<close>, \<open>load_csv\<close> of the file
  written by \<open>save_csv\<close> gives the table back (an empty list coming back as a list of one
  null). For the one-row table \<open>adams_table\<close>, made by \<open>clean_presidents_df\<close> from
  \<open>raw_adams\<close>, it does not: every cell of the \<open>election\<close> column of the file is a single
  year, \<open>read_csv\<close> reads the column as numbers, \<open>pipe_string_to_list\<close> returns a number
  as it is, and the conversion of the election lists to integers then iterates over a
  number and raises \<open>TypeError\<close>. No table is returned.
\<close>

theorem load_of_saved_table_raises:
  "(case clean_presidents_df month_day_year [raw_adams] 0 of
      (h, res) \<Rightarrow> res = Inr 2 \<and> h ! 2 = adams_table)
   \<and> snd (save_csv [adams_table] 0) = Inr adams_csv
   \<and> snd (load_csv month_day_year [] adams_csv) = Inl TypeError"
  using adams_clean adams_save adams_load by simp

section \<open>The list codec as a whole\<close>




section \<open>Election years\<close>



section \<open>Name, birth and death\<close>





section \<open>Start and end of a term\<close>



section \<open>Dates that cannot be parsed\<close>



end
